theory Spec2Isabelle
  imports Main
begin

section \<open>pushecr: a shallow embedding of \<^verbatim>\<open>main.go\<close>\<close>

text \<open>
  The program reads a YAML file of deployment profiles, selects one profile, validates it
  and runs four external commands (registry login, image build, tag, push). Go strings are
  byte sequences and are modelled as \<^typ>\<open>string\<close>; a Go \<^verbatim>\<open>error\<close> is a value
  carrying its message, and a \<^verbatim>\<open>nil\<close> error is \<^const>\<open>None\<close>.
\<close>

subsection \<open>Constants and formatting\<close>

definition ColorReset :: string where "ColorReset = CHR 0x1B # ''[0m''"
definition ColorRed :: string where "ColorRed = CHR 0x1B # ''[31m''"
definition ColorGreen :: string where "ColorGreen = CHR 0x1B # ''[32m''"
definition ColorYellow :: string where "ColorYellow = CHR 0x1B # ''[33m''"
definition ColorCyan :: string where "ColorCyan = CHR 0x1B # ''[36m''"

text \<open>
  \<^verbatim>\<open>fmt.Sprintf\<close>, for the verbs the program uses: \<^verbatim>\<open>%s\<close> and \<^verbatim>\<open>%w\<close> print a
  string operand (for \<^verbatim>\<open>%w\<close> the message of the wrapped error) and \<^verbatim>\<open>%+v\<close> prints an
  operand that the caller has already rendered. A verb without an operand prints Go's
  \<^verbatim>\<open>%!s(MISSING)\<close>. Every other byte of the format is copied.
\<close>

fun Sprintf :: "string \<Rightarrow> string list \<Rightarrow> string" where
  "Sprintf [] args = []"
| "Sprintf (c # fs) args =
     (if c = CHR ''%'' then
        (case fs of
           v # fs' \<Rightarrow>
             if v = CHR ''s'' \<or> v = CHR ''w'' then
               (case args of
                  [] \<Rightarrow> ''%!'' @ [v] @ ''(MISSING)'' @ Sprintf fs' []
                | a # as \<Rightarrow> a @ Sprintf fs' as)
             else
               (case fs' of
                  w # fs'' \<Rightarrow>
                    if v = CHR ''+'' \<and> w = CHR ''v'' then
                      (case args of
                         [] \<Rightarrow> ''%!v(MISSING)'' @ Sprintf fs'' []
                       | a # as \<Rightarrow> a @ Sprintf fs'' as)
                    else c # Sprintf fs args
                | [] \<Rightarrow> c # Sprintf fs args)
         | [] \<Rightarrow> [c])
      else c # Sprintf fs args)"

datatype error = New string

fun Error :: "error \<Rightarrow> string" where
  "Error (New msg) = msg"

definition Errorf :: "string \<Rightarrow> string list \<Rightarrow> error" where
  "Errorf format args = New (Sprintf format args)"

subsection \<open>Regular expressions\<close>

text \<open>
  The part of Go's \<^verbatim>\<open>regexp\<close> that the pattern \<^verbatim>\<open>^\d{12}$\<close> needs, over the operators
  of \<^verbatim>\<open>regexp/syntax\<close>. A position is the offset into the text together with the text that
  is left; \<open>run_re\<close> returns every position at which a match that starts at the given
  position can end. Without the multi-line flag \<^verbatim>\<open>^\<close> holds at offset 0 only and
  \<^verbatim>\<open>$\<close> at the end of the text only. A character class is a list of byte ranges;
  \<^verbatim>\<open>\d\<close> is the range from 0 to 9 (a byte of a multi-byte rune is above every digit).
\<close>

datatype regexp =
    OpBeginText
  | OpEndText
  | OpCharClass "(char \<times> char) list"
  | OpRepeat nat regexp
  | OpConcat regexp regexp

definition inClass :: "(char \<times> char) list \<Rightarrow> char \<Rightarrow> bool" where
  "inClass ranges c =
     list_ex (\<lambda>(lo, hi). (of_char lo :: nat) \<le> of_char c \<and> (of_char c :: nat) \<le> of_char hi) ranges"

primrec run_re :: "regexp \<Rightarrow> nat \<times> string \<Rightarrow> (nat \<times> string) list" where
  "run_re OpBeginText = (\<lambda>(i, s). if i = 0 then [(i, s)] else [])"
| "run_re OpEndText = (\<lambda>(i, s). if s = [] then [(i, s)] else [])"
| "run_re (OpCharClass ranges) =
     (\<lambda>(i, s). case s of [] \<Rightarrow> [] | c # cs \<Rightarrow> if inClass ranges c then [(Suc i, cs)] else [])"
| "run_re (OpRepeat n r) = (\<lambda>p. ((\<lambda>ps. concat (map (run_re r) ps)) ^^ n) [p])"
| "run_re (OpConcat a b) = (\<lambda>p. concat (map (run_re b) (run_re a p)))"

definition MatchString :: "regexp \<Rightarrow> string \<Rightarrow> bool" where
  "MatchString re s = list_ex (\<lambda>i. run_re re (i, drop i s) \<noteq> []) [0..<Suc (length s)]"

text \<open>The pattern \<^verbatim>\<open>^\d{12}$\<close> as \<^verbatim>\<open>regexp/syntax\<close> parses it. It compiles, so the
  error result of \<^verbatim>\<open>regexp.MatchString\<close> is \<^verbatim>\<open>nil\<close> at this call.\<close>

definition perl_d :: regexp where
  "perl_d = OpCharClass [(CHR ''0'', CHR ''9'')]"

definition accountIDPattern :: regexp where
  "accountIDPattern = OpConcat OpBeginText (OpConcat (OpRepeat 12 perl_d) OpEndText)"

definition isDigit :: "char \<Rightarrow> bool" where
  "isDigit c = (c \<in> set ''0123456789'')"

subsection \<open>Configuration records\<close>

record ECRConfig =
  Region :: string
  AccountID :: string
  Repository :: string
  ImageTag :: string

record DockerConfig =
  ImageName :: string

record ProfileConfig =
  ECR :: ECRConfig
  Docker :: DockerConfig

record Config =
  Profiles :: "string \<rightharpoonup> ProfileConfig"

record ECR =
  Config :: ProfileConfig

subsection \<open>Validation\<close>

definition validateConfig :: "ProfileConfig \<Rightarrow> error option" where
  "validateConfig config =
     (if Region (ECR config) = [] then Some (Errorf ''ecr.region is required'' [])
      else if AccountID (ECR config) = [] then Some (Errorf ''ecr.account_id is required'' [])
      else if \<not> MatchString accountIDPattern (AccountID (ECR config)) then
        Some (Errorf (''ecr.account_id debe ser una cadena de 12 d'' @ [CHR 0xC3, CHR 0xAD] @ ''gitos'') [])
      else if Repository (ECR config) = [] then Some (Errorf ''ecr.repository is required'' [])
      else if ImageName (Docker config) = [] then Some (Errorf ''docker.image_name is required'' [])
      else None)"

subsection \<open>The configuration store\<close>

text \<open>
  The program keeps its settings in the global store of the \<^verbatim>\<open>viper\<close> library, which is
  not part of the repository. The store is modelled by the two layers the program fills: the
  defaults and the content of the configuration file. Each layer maps a key path (the dotted
  key split at the dots) to a scalar, printed as a string. The library's keys are
  case-insensitive: \<^verbatim>\<open>SetDefault\<close> lower-cases its key and \<^verbatim>\<open>ReadInConfig\<close> lower-cases
  every key of the document, at every level, before it stores them. A lookup takes the
  file's value when the file sets the key and the default otherwise, which is the library's
  documented precedence. Reading and parsing the file is the parameter \<open>fs\<close>: it gives, for
  a path of the file system, either the message of the read or parse error or the scalars of
  the document with their key paths as the document writes them. The document is taken to
  be nested mappings with scalar leaves; a key whose value is null counts as not set, as it
  does for the library's lookup.
\<close>

type_synonym path = "string list"
type_synonym settings = "(path \<times> string) list"
type_synonym filesystem = "string \<Rightarrow> string + settings"

record viper =
  configFile :: string
  configType :: string
  v_defaults :: settings
  v_config :: settings

definition viper_New :: viper where
  "viper_New = \<lparr>configFile = [], configType = [], v_defaults = [], v_config = []\<rparr>"

fun splitKey :: "string \<Rightarrow> path" where
  "splitKey [] = [[]]"
| "splitKey (c # cs) =
     (if c = CHR ''.'' then [] # splitKey cs
      else (case splitKey cs of w # ws \<Rightarrow> (c # w) # ws | [] \<Rightarrow> [[c]]))"

text \<open>
  \<^verbatim>\<open>strings.ToLower\<close> on the bytes of a key: an ASCII capital (a byte from 65 to 90)
  becomes its small letter, which is 32 more and in that range the same as setting bit 5; and
  so do the two letters beyond ASCII whose lower case is an ASCII letter (U+0130, in UTF-8
  the bytes C4 B0, becomes \<^verbatim>\<open>i\<close>; U+212A, the bytes E2 84 AA, becomes \<^verbatim>\<open>k\<close>). Every other
  byte is kept: Go lower-cases the other letters beyond ASCII to letters beyond ASCII, which
  no key of the program contains.
\<close>

definition lowerByte :: "char \<Rightarrow> char" where
  "lowerByte c = (case c of Char b0 b1 b2 b3 b4 b5 b6 b7 \<Rightarrow> Char b0 b1 b2 b3 b4 True b6 b7)"

fun ToLower :: "string \<Rightarrow> string" where
  "ToLower [] = []"
| "ToLower (c # cs) =
     (if 65 \<le> (of_char c :: nat) \<and> (of_char c :: nat) \<le> 90 then lowerByte c # ToLower cs
      else if c = CHR 0xC4 \<and> take 1 cs = [CHR 0xB0] then CHR ''i'' # ToLower (drop 1 cs)
      else if c = CHR 0xE2 \<and> take 2 cs = [CHR 0x84, CHR 0xAA] then CHR ''k'' # ToLower (drop 2 cs)
      else c # ToLower cs)"

definition insensitiviseMap :: "settings \<Rightarrow> settings" where
  "insensitiviseMap m = map (\<lambda>(k, v). (map ToLower k, v)) m"


definition SetConfigFile :: "string \<Rightarrow> viper \<Rightarrow> viper" where
  "SetConfigFile file v = v\<lparr>configFile := file\<rparr>"

definition SetConfigType :: "string \<Rightarrow> viper \<Rightarrow> viper" where
  "SetConfigType t v = v\<lparr>configType := t\<rparr>"

definition SetDefault :: "string \<Rightarrow> string \<Rightarrow> viper \<Rightarrow> viper" where
  "SetDefault key val v = v\<lparr>v_defaults := (splitKey (ToLower key), val) # v_defaults v\<rparr>"

definition ReadInConfig :: "filesystem \<Rightarrow> viper \<Rightarrow> error + viper" where
  "ReadInConfig fs v =
     (case fs (configFile v) of
        Inl msg \<Rightarrow> Inl (New msg)
      | Inr kvs \<Rightarrow> Inr (v\<lparr>v_config := insensitiviseMap kvs\<rparr>))"

definition find_key :: "viper \<Rightarrow> path \<Rightarrow> string option" where
  "find_key v k = (case map_of (v_config v) k of Some x \<Rightarrow> Some x | None \<Rightarrow> map_of (v_defaults v) k)"

definition AllKeys :: "viper \<Rightarrow> path list" where
  "AllKeys v = remdups (map fst (v_config v) @ map fst (v_defaults v))"

definition AllSettings :: "viper \<Rightarrow> settings" where
  "AllSettings v = List.map_filter (\<lambda>k. map_option (Pair k) (find_key v k)) (AllKeys v)"

text \<open>
  \<^verbatim>\<open>viper.Unmarshal\<close> decodes all settings into the \<^verbatim>\<open>Config\<close> struct along the
  \<^verbatim>\<open>mapstructure\<close> tags. A string field that no key sets keeps Go's zero value, the empty
  string. A key outside the struct's fields is ignored. Decoding fails where a scalar stands
  in the place of a mapping or of a struct (at \<^verbatim>\<open>profiles\<close>, at a profile, at its
  \<^verbatim>\<open>ecr\<close> or \<^verbatim>\<open>docker\<close> part) and where a mapping stands in the place of a string field.
  The text of that error is the library's and is not modelled further.
\<close>

definition shapeError :: "path \<Rightarrow> bool" where
  "shapeError k =
     (take 1 k = [''profiles''] \<and>
      (length k \<le> 2 \<or>
       (length k = 3 \<and> k ! 2 \<in> set [''ecr'', ''docker'']) \<or>
       (4 < length k \<and>
        take 2 (drop 2 k) \<in> set [[''ecr'', ''region''], [''ecr'', ''account_id''],
          [''ecr'', ''repository''], [''ecr'', ''image_tag''], [''docker'', ''image_name'']])))"

definition decodeString :: "settings \<Rightarrow> path \<Rightarrow> string" where
  "decodeString m k = (case map_of m k of Some s \<Rightarrow> s | None \<Rightarrow> [])"

definition decodeProfile :: "settings \<Rightarrow> string \<Rightarrow> ProfileConfig" where
  "decodeProfile m name =
     \<lparr>ECR = \<lparr>Region = decodeString m [''profiles'', name, ''ecr'', ''region''],
             AccountID = decodeString m [''profiles'', name, ''ecr'', ''account_id''],
             Repository = decodeString m [''profiles'', name, ''ecr'', ''repository''],
             ImageTag = decodeString m [''profiles'', name, ''ecr'', ''image_tag'']\<rparr>,
      Docker = \<lparr>ImageName = decodeString m [''profiles'', name, ''docker'', ''image_name'']\<rparr>\<rparr>"

definition profileNames :: "settings \<Rightarrow> string list" where
  "profileNames m =
     remdups (map (\<lambda>k. k ! 1) (filter (\<lambda>k. take 1 k = [''profiles''] \<and> 2 < length k) (map fst m)))"

definition Unmarshal :: "viper \<Rightarrow> error + Config" where
  "Unmarshal v =
     (let m = AllSettings v in
      if list_ex shapeError (map fst m) then Inl (New ''expected a map'')
      else Inr \<lparr>Profiles = map_of (map (\<lambda>name. (name, decodeProfile m name)) (profileNames m))\<rparr>)"

definition loadConfig :: "filesystem \<Rightarrow> string \<Rightarrow> error + Config" where
  "loadConfig fs configPath =
     (let v = SetConfigFile configPath viper_New;
          v = SetConfigType ''yaml'' v;
          v = SetDefault ''profiles.dev.ecr.region'' ''us-east-1'' v;
          v = SetDefault ''profiles.dev.ecr.image_tag'' ''latest'' v
      in case ReadInConfig fs v of
           Inl err \<Rightarrow>
             Inl (Errorf (''error leyendo el archivo de configuraci'' @ [CHR 0xC3, CHR 0xB3] @ ''n: %w'')
                    [Error err])
         | Inr v' \<Rightarrow>
             (case Unmarshal v' of
                Inl err \<Rightarrow>
                  Inl (Errorf (''error parseando la configuraci'' @ [CHR 0xC3, CHR 0xB3] @ ''n: %w'')
                         [Error err])
              | Inr config \<Rightarrow> Inr config))"

subsection \<open>The four steps\<close>

text \<open>
  What a run does to the outside is a trace of events: the bytes the program writes to its
  standard output, and the external commands it runs (\<^verbatim>\<open>cmd.Run()\<close>, with the argument
  vector). The outcome of an external command is the parameter \<open>run\<close>: \<^const>\<open>None\<close> when
  the process exits with status 0, the message of the error otherwise. In one run the program
  runs each of its four commands at most once, and the four differ in their first two
  arguments, so an outcome per command is as general as an outcome per invocation. Each step
  returns the events it adds and its error.
\<close>

datatype event = Print string | Exec "string list"

type_synonym runner = "string list \<Rightarrow> string option"

definition Println :: "string \<Rightarrow> event" where
  "Println s = Print (s @ [CHR 0x0A])"

definition Printf :: "string \<Rightarrow> string list \<Rightarrow> event" where
  "Printf format args = Print (Sprintf format args)"

definition authenticate :: "runner \<Rightarrow> ECR \<Rightarrow> event list \<times> error option" where
  "authenticate run ecr =
     (let ecrRepo = Sprintf ''%s.dkr.ecr.%s.amazonaws.com''
            [AccountID (ECR (Config ecr)), Region (ECR (Config ecr))];
          cmd = [''sh'', ''-c'',
            Sprintf ''aws ecr get-login-password --region %s | docker login --username AWS --password-stdin %s''
              [Region (ECR (Config ecr)), ecrRepo]];
          out = [Println (ColorCyan @ ''Authenticating Docker with ECR'' @ ColorReset), Exec cmd]
      in case run cmd of
           Some err \<Rightarrow>
             (out, Some (Errorf (''error durante la autenticaci'' @ [CHR 0xC3, CHR 0xB3] @ ''n con ECR: %w'') [err]))
         | None \<Rightarrow> (out, None))"

definition build :: "runner \<Rightarrow> ECR \<Rightarrow> event list \<times> error option" where
  "build run ecr =
     (let cmd = [''docker'', ''build'', ''-t'', ImageName (Docker (Config ecr)), ''.''];
          out = [Println (ColorCyan @ ''Building container'' @ ColorReset), Exec cmd]
      in case run cmd of
           Some err \<Rightarrow> (out, Some (Errorf ''error al construir la imagen Docker: %w'' [err]))
         | None \<Rightarrow> (out, None))"

definition tag :: "runner \<Rightarrow> ECR \<Rightarrow> event list \<times> error option" where
  "tag run ecr =
     (let localImage = Sprintf ''%s:%s'' [ImageName (Docker (Config ecr)), ImageTag (ECR (Config ecr))];
          ecrImage = Sprintf ''%s.dkr.ecr.%s.amazonaws.com/%s:%s''
            [AccountID (ECR (Config ecr)), Region (ECR (Config ecr)),
             Repository (ECR (Config ecr)), ImageTag (ECR (Config ecr))];
          cmd = [''docker'', ''tag'', localImage, ecrImage];
          out = [Println (ColorYellow @ ''Tagging container'' @ ColorReset), Exec cmd]
      in case run cmd of
           Some err \<Rightarrow> (out, Some (Errorf ''error al etiquetar la imagen Docker: %w'' [err]))
         | None \<Rightarrow> (out, None))"

definition push :: "runner \<Rightarrow> ECR \<Rightarrow> event list \<times> error option" where
  "push run ecr =
     (let ecrImage = Sprintf ''%s.dkr.ecr.%s.amazonaws.com/%s:%s''
            [AccountID (ECR (Config ecr)), Region (ECR (Config ecr)),
             Repository (ECR (Config ecr)), ImageTag (ECR (Config ecr))];
          cmd = [''docker'', ''push'', ecrImage];
          out = [Println (ColorCyan @ ''Pushing container'' @ ColorReset), Exec cmd]
      in case run cmd of
           Some err \<Rightarrow> (out, Some (Errorf ''error al empujar la imagen Docker: %w'' [err]))
         | None \<Rightarrow> (out, None))"

subsection \<open>The entry point\<close>

text \<open>
  \<open>main\<close> takes the values of the two flags after parsing (\<^verbatim>\<open>-config\<close>, by default
  \<^verbatim>\<open>deploy.yml\<close>, and \<^verbatim>\<open>-profile\<close>, by default \<^verbatim>\<open>dev\<close>) and returns the trace of
  the run with the exit status: \<^verbatim>\<open>os.Exit(1)\<close> ends the run at once with status 1, and
  falling off the end of \<^verbatim>\<open>main\<close> is status 0. \<open>fmtProfileConfig\<close> is what the verb
  \<^verbatim>\<open>%+v\<close> prints for the profile struct.
\<close>

definition fmtProfileConfig :: "ProfileConfig \<Rightarrow> string" where
  "fmtProfileConfig p =
     ''{ECR:{Region:'' @ Region (ECR p) @ '' AccountID:'' @ AccountID (ECR p) @
     '' Repository:'' @ Repository (ECR p) @ '' ImageTag:'' @ ImageTag (ECR p) @
     ''} Docker:{ImageName:'' @ ImageName (Docker p) @ ''}}''"

definition main :: "filesystem \<Rightarrow> runner \<Rightarrow> string \<Rightarrow> string \<Rightarrow> event list \<times> nat" where
  "main fs run configPath profile =
     (case loadConfig fs configPath of
        Inl err \<Rightarrow>
          ([Println (ColorRed @ ''Error loading configuration: '' @ Error err @ ColorReset)], 1)
      | Inr config \<Rightarrow>
     (case Profiles config profile of
        None \<Rightarrow>
          ([Printf (ColorRed @ ''Profile '%s' not found in configuration'' @ ColorReset @ [CHR 0x0A])
              [profile]], 1)
      | Some profileConfig \<Rightarrow>
     (let t0 = [Printf (ColorYellow @ ''Loaded Configuration for profile '%s': %+v'' @ ColorReset @ [CHR 0x0A])
                  [profile, fmtProfileConfig profileConfig]]
      in case validateConfig profileConfig of
        Some err \<Rightarrow>
          (t0 @ [Println (ColorRed @ ''Invalid configuration: '' @ Error err @ ColorReset)], 1)
      | None \<Rightarrow>
     (let ecr = \<lparr>Config = profileConfig\<rparr>
      in case authenticate run ecr of
        (t1, Some err) \<Rightarrow>
          (t0 @ t1 @ [Println (ColorRed @ ''Authentication failed: '' @ Error err @ ColorReset)], 1)
      | (t1, None) \<Rightarrow>
     (case build run ecr of
        (t2, Some err) \<Rightarrow>
          (t0 @ t1 @ t2 @ [Println (ColorRed @ ''Build failed: '' @ Error err @ ColorReset)], 1)
      | (t2, None) \<Rightarrow>
     (case tag run ecr of
        (t3, Some err) \<Rightarrow>
          (t0 @ t1 @ t2 @ t3 @ [Println (ColorRed @ ''Tag failed: '' @ Error err @ ColorReset)], 1)
      | (t3, None) \<Rightarrow>
     (case push run ecr of
        (t4, Some err) \<Rightarrow>
          (t0 @ t1 @ t2 @ t3 @ t4 @ [Println (ColorRed @ ''Push failed: '' @ Error err @ ColorReset)], 1)
      | (t4, None) \<Rightarrow>
          (t0 @ t1 @ t2 @ t3 @ t4 @
             [Println (ColorGreen @ ''Container built and pushed to ECR'' @ ColorReset)], 0))))))))"

definition execs :: "event list \<Rightarrow> string list list" where
  "execs t = concat (map (\<lambda>e. case e of Exec cmd \<Rightarrow> [cmd] | Print _ \<Rightarrow> []) t)"

text \<open>The profile of the end-to-end scenario.\<close>

definition exampleProfile :: ProfileConfig where
  "exampleProfile =
     \<lparr>ECR = \<lparr>Region = ''us-east-1'', AccountID = ''123456789012'',
             Repository = ''myrepo'', ImageTag = ''latest''\<rparr>,
      Docker = \<lparr>ImageName = ''myapp''\<rparr>\<rparr>"

text \<open>
  Inputs for the scenarios: a configuration file whose \<^verbatim>\<open>dev\<close> profile sets neither the
  region nor the image tag and whose \<^verbatim>\<open>prod\<close> profile has a five-digit account identifier
  and no image tag; the same document with capitals in its keys; a file system that holds
  the first as \<^verbatim>\<open>deploy.yml\<close> and the second as \<^verbatim>\<open>mixed.yml\<close>; an environment in
  which every command succeeds, and one in which the commands that begin with two given
  words fail.
\<close>

definition exampleFile :: settings where
  "exampleFile =
     [([''profiles'', ''dev'', ''ecr'', ''account_id''], ''123456789012''),
      ([''profiles'', ''dev'', ''ecr'', ''repository''], ''myrepo''),
      ([''profiles'', ''dev'', ''docker'', ''image_name''], ''myapp''),
      ([''profiles'', ''prod'', ''ecr'', ''region''], ''eu-west-1''),
      ([''profiles'', ''prod'', ''ecr'', ''account_id''], ''12345''),
      ([''profiles'', ''prod'', ''ecr'', ''repository''], ''myrepo''),
      ([''profiles'', ''prod'', ''docker'', ''image_name''], ''myapp'')]"

definition mixedCaseFile :: settings where
  "mixedCaseFile =
     [([''Profiles'', ''DEV'', ''ECR'', ''Account_ID''], ''123456789012''),
      ([''Profiles'', ''DEV'', ''ECR'', ''Repository''], ''myrepo''),
      ([''Profiles'', ''DEV'', ''Docker'', ''Image_Name''], ''myapp''),
      ([''Profiles'', ''Prod'', ''ECR'', ''Region''], ''eu-west-1''),
      ([''Profiles'', ''Prod'', ''ECR'', ''Account_ID''], ''12345''),
      ([''Profiles'', ''Prod'', ''ECR'', ''Repository''], ''myrepo''),
      ([''Profiles'', ''Prod'', ''Docker'', ''Image_Name''], ''myapp'')]"

definition exampleFS :: filesystem where
  "exampleFS file =
     (if file = ''deploy.yml'' then Inr exampleFile
      else if file = ''mixed.yml'' then Inr mixedCaseFile
      else Inl ''open: no such file or directory'')"

definition prodProfile :: ProfileConfig where
  "prodProfile =
     \<lparr>ECR = \<lparr>Region = ''eu-west-1'', AccountID = ''12345'',
             Repository = ''myrepo'', ImageTag = []\<rparr>,
      Docker = \<lparr>ImageName = ''myapp''\<rparr>\<rparr>"

definition allSucceed :: runner where
  "allSucceed cmd = None"

definition failsOn :: "string list \<Rightarrow> runner" where
  "failsOn ws cmd = (if take 2 cmd = ws then Some ''exit status 1'' else None)"


section \<open>Properties\<close>

subsection \<open>The account identifier pattern\<close>

lemma inClass_digit: "inClass [(CHR ''0'', CHR ''9'')] c = isDigit c"
proof (cases c)
  case (Char b0 b1 b2 b3 b4 b5 b6 b7)
  then show ?thesis
    by (cases b0; cases b1; cases b2; cases b3; cases b4; cases b5; cases b6; cases b7)
       (simp_all add: inClass_def isDigit_def)
qed

lemma run_re_repeat_class:
  "run_re (OpRepeat n (OpCharClass rs)) (i, s) =
     (if n \<le> length s \<and> list_all (inClass rs) (take n s) then [(i + n, drop n s)] else [])"
proof (induction n arbitrary: i s)
  case 0
  then show ?case by simp
next
  case (Suc n)
  have unroll: "run_re (OpRepeat (Suc n) (OpCharClass rs)) (i, s) =
      concat (map (run_re (OpCharClass rs)) (run_re (OpRepeat n (OpCharClass rs)) (i, s)))"
    by simp
  show ?case
  proof (cases "n < length s")
    case False
    then show ?thesis
      unfolding unroll Suc.IH by simp
  next
    case True
    then have d: "drop n s = s ! n # drop (Suc n) s"
      by (simp add: Cons_nth_drop_Suc)
    from True show ?thesis
      unfolding unroll Suc.IH by (simp add: d take_Suc_conv_app_nth)
  qed
qed

lemma run_re_accountIDPattern:
  "run_re accountIDPattern (0, s) =
     (if length s = 12 \<and> list_all isDigit s then [(12, [])] else [])"
proof -
  have "run_re accountIDPattern (0, s) =
      concat (map (run_re OpEndText) (run_re (OpRepeat 12 (OpCharClass [(CHR ''0'', CHR ''9'')])) (0, s)))"
    by (simp add: accountIDPattern_def perl_d_def)
  also have "\<dots> = (if length s = 12 \<and> list_all isDigit s then [(12, [])] else [])"
    unfolding run_re_repeat_class by (auto simp: inClass_digit[abs_def])
  finally show ?thesis .
qed

lemma run_re_accountIDPattern_pos:
  "0 < i \<Longrightarrow> run_re accountIDPattern (i, s) = []"
  by (simp add: accountIDPattern_def)

text \<open>A string matches \<^verbatim>\<open>^\d{12}$\<close> exactly when it is twelve decimal digits.\<close>

lemma MatchString_accountID:
  "MatchString accountIDPattern s \<longleftrightarrow> length s = 12 \<and> list_all isDigit s"
proof -
  have "MatchString accountIDPattern s \<longleftrightarrow> run_re accountIDPattern (0, s) \<noteq> []"
  proof
    assume "MatchString accountIDPattern s"
    then obtain i where "run_re accountIDPattern (i, drop i s) \<noteq> []"
      unfolding MatchString_def list_ex_iff by blast
    then show "run_re accountIDPattern (0, s) \<noteq> []"
      using run_re_accountIDPattern_pos[of i "drop i s"] by (cases "i = 0") auto
  next
    assume "run_re accountIDPattern (0, s) \<noteq> []"
    then show "MatchString accountIDPattern s"
      unfolding MatchString_def list_ex_iff by (intro bexI[where x=0]) auto
  qed
  then show ?thesis
    by (simp add: run_re_accountIDPattern)
qed

subsection \<open>Validation\<close>

text \<open>
  C1. For every profile, \<open>validateConfig\<close> returns no error if and only if the region, the
  account identifier, the repository and the image name are all non-empty and the account
  identifier matches \<^verbatim>\<open>^\d{12}$\<close> over the whole string; and a string matches that
  pattern exactly when it consists of twelve decimal digits.
\<close>

theorem validateConfig_succeeds_iff:
  "(validateConfig p = None \<longleftrightarrow>
      Region (ECR p) \<noteq> [] \<and> AccountID (ECR p) \<noteq> [] \<and> Repository (ECR p) \<noteq> [] \<and>
      ImageName (Docker p) \<noteq> [] \<and> MatchString accountIDPattern (AccountID (ECR p))) \<and>
   (MatchString accountIDPattern (AccountID (ECR p)) \<longleftrightarrow>
      length (AccountID (ECR p)) = 12 \<and> list_all isDigit (AccountID (ECR p)))"
  by (simp add: validateConfig_def Errorf_def MatchString_accountID)

theorem validateConfig_succeeds_iff_witness:
  "validateConfig exampleProfile = None \<and>
   MatchString accountIDPattern ''123456789012'' \<and>
   validateConfig (exampleProfile\<lparr>ECR := (ECR exampleProfile)\<lparr>AccountID := ''12345''\<rparr>\<rparr>) \<noteq> None"
  using validateConfig_succeeds_iff [of exampleProfile]
    validateConfig_succeeds_iff [of "exampleProfile\<lparr>ECR := (ECR exampleProfile)\<lparr>AccountID := ''12345''\<rparr>\<rparr>"]
  by (simp add: exampleProfile_def isDigit_def)

text \<open>
  C2. \<open>validateConfig\<close> checks, in this order, that the region is non-empty, that the
  account identifier is non-empty, that the account identifier matches twelve decimal
  digits, that the repository is non-empty and that the image name is non-empty. Its result
  is the single error of the first check that fails, whatever the fields of the later checks
  hold.
\<close>

theorem validateConfig_first_failure:
  "(Region (ECR p) = [] \<longrightarrow>
      validateConfig p = Some (New ''ecr.region is required'')) \<and>
   (Region (ECR p) \<noteq> [] \<and> AccountID (ECR p) = [] \<longrightarrow>
      validateConfig p = Some (New ''ecr.account_id is required'')) \<and>
   (Region (ECR p) \<noteq> [] \<and> AccountID (ECR p) \<noteq> [] \<and>
    \<not> MatchString accountIDPattern (AccountID (ECR p)) \<longrightarrow>
      validateConfig p =
        Some (New (''ecr.account_id debe ser una cadena de 12 d'' @ [CHR 0xC3, CHR 0xAD] @ ''gitos''))) \<and>
   (Region (ECR p) \<noteq> [] \<and> AccountID (ECR p) \<noteq> [] \<and>
    MatchString accountIDPattern (AccountID (ECR p)) \<and> Repository (ECR p) = [] \<longrightarrow>
      validateConfig p = Some (New ''ecr.repository is required'')) \<and>
   (Region (ECR p) \<noteq> [] \<and> AccountID (ECR p) \<noteq> [] \<and>
    MatchString accountIDPattern (AccountID (ECR p)) \<and> Repository (ECR p) \<noteq> [] \<and>
    ImageName (Docker p) = [] \<longrightarrow>
      validateConfig p = Some (New ''docker.image_name is required''))"
  by (simp add: validateConfig_def Errorf_def)

theorem validateConfig_first_failure_witness:
  "validateConfig \<lparr>ECR = \<lparr>Region = [], AccountID = ''12345'', Repository = [], ImageTag = []\<rparr>,
                    Docker = \<lparr>ImageName = []\<rparr>\<rparr> = Some (New ''ecr.region is required'') \<and>
   validateConfig \<lparr>ECR = \<lparr>Region = ''us-east-1'', AccountID = [], Repository = [], ImageTag = []\<rparr>,
                    Docker = \<lparr>ImageName = []\<rparr>\<rparr> = Some (New ''ecr.account_id is required'') \<and>
   validateConfig \<lparr>ECR = \<lparr>Region = ''us-east-1'', AccountID = ''12345'', Repository = [], ImageTag = []\<rparr>,
                    Docker = \<lparr>ImageName = []\<rparr>\<rparr> =
     Some (New (''ecr.account_id debe ser una cadena de 12 d'' @ [CHR 0xC3, CHR 0xAD] @ ''gitos'')) \<and>
   validateConfig \<lparr>ECR = \<lparr>Region = ''us-east-1'', AccountID = ''123456789012'', Repository = [],
                            ImageTag = []\<rparr>,
                    Docker = \<lparr>ImageName = []\<rparr>\<rparr> = Some (New ''ecr.repository is required'') \<and>
   validateConfig \<lparr>ECR = \<lparr>Region = ''us-east-1'', AccountID = ''123456789012'', Repository = ''myrepo'',
                            ImageTag = []\<rparr>,
                    Docker = \<lparr>ImageName = []\<rparr>\<rparr> = Some (New ''docker.image_name is required'')"
  using
    validateConfig_first_failure [of "\<lparr>ECR = \<lparr>Region = [], AccountID = ''12345'', Repository = [],
      ImageTag = []\<rparr>, Docker = \<lparr>ImageName = []\<rparr>\<rparr>"]
    validateConfig_first_failure [of "\<lparr>ECR = \<lparr>Region = ''us-east-1'', AccountID = [], Repository = [],
      ImageTag = []\<rparr>, Docker = \<lparr>ImageName = []\<rparr>\<rparr>"]
    validateConfig_first_failure [of "\<lparr>ECR = \<lparr>Region = ''us-east-1'', AccountID = ''12345'',
      Repository = [], ImageTag = []\<rparr>, Docker = \<lparr>ImageName = []\<rparr>\<rparr>"]
    validateConfig_first_failure [of "\<lparr>ECR = \<lparr>Region = ''us-east-1'', AccountID = ''123456789012'',
      Repository = [], ImageTag = []\<rparr>, Docker = \<lparr>ImageName = []\<rparr>\<rparr>"]
    validateConfig_first_failure [of "\<lparr>ECR = \<lparr>Region = ''us-east-1'', AccountID = ''123456789012'',
      Repository = ''myrepo'', ImageTag = []\<rparr>, Docker = \<lparr>ImageName = []\<rparr>\<rparr>"]
  by (simp add: MatchString_accountID isDigit_def)

text \<open>
  C10. The result of \<open>validateConfig\<close> does not depend on the image tag: changing the
  image tag of any profile leaves the result as it is. In particular the scenario's profile
  with an empty image tag passes validation, and the tag step then computes references that
  end in a colon.
\<close>

theorem validateConfig_ignores_ImageTag:
  "validateConfig (p\<lparr>ECR := (ECR p)\<lparr>ImageTag := t\<rparr>\<rparr>) = validateConfig p \<and>
   validateConfig (exampleProfile\<lparr>ECR := (ECR exampleProfile)\<lparr>ImageTag := []\<rparr>\<rparr>) = None \<and>
   execs (fst (tag run \<lparr>Config = exampleProfile\<lparr>ECR := (ECR exampleProfile)\<lparr>ImageTag := []\<rparr>\<rparr>\<rparr>)) =
     [[''docker'', ''tag'', ''myapp:'', ''123456789012.dkr.ecr.us-east-1.amazonaws.com/myrepo:'']]"
  by (simp add: validateConfig_def tag_def Let_def execs_def Println_def exampleProfile_def
      MatchString_accountID isDigit_def split: option.split)

theorem validateConfig_ignores_ImageTag_witness:
  "validateConfig (prodProfile\<lparr>ECR := (ECR prodProfile)\<lparr>ImageTag := ''v1''\<rparr>\<rparr>) = validateConfig prodProfile \<and>
   validateConfig (exampleProfile\<lparr>ECR := (ECR exampleProfile)\<lparr>ImageTag := []\<rparr>\<rparr>) = None"
  using validateConfig_ignores_ImageTag [where p = prodProfile and t = "''v1''" and run = allSucceed]
  by simp

subsection \<open>The commands of the steps\<close>

lemma execs_simps [simp]:
  "execs [] = []"
  "execs (Exec cmd # t) = cmd # execs t"
  "execs (Print s # t) = execs t"
  "execs (Println s # t) = execs t"
  "execs (t @ u) = execs t @ execs u"
  by (simp_all add: execs_def Println_def)

lemma steps_trace:
  "fst (authenticate run ecr) =
     [Println (ColorCyan @ ''Authenticating Docker with ECR'' @ ColorReset),
      Exec [''sh'', ''-c'',
        ''aws ecr get-login-password --region '' @ Region (ECR (Config ecr)) @
        '' | docker login --username AWS --password-stdin '' @
        (AccountID (ECR (Config ecr)) @ ''.dkr.ecr.'' @ Region (ECR (Config ecr)) @ ''.amazonaws.com'')]]"
  "fst (build run ecr) =
     [Println (ColorCyan @ ''Building container'' @ ColorReset),
      Exec [''docker'', ''build'', ''-t'', ImageName (Docker (Config ecr)), ''.'']]"
  "fst (tag run ecr) =
     [Println (ColorYellow @ ''Tagging container'' @ ColorReset),
      Exec [''docker'', ''tag'',
        ImageName (Docker (Config ecr)) @ '':'' @ ImageTag (ECR (Config ecr)),
        AccountID (ECR (Config ecr)) @ ''.dkr.ecr.'' @ Region (ECR (Config ecr)) @
          ''.amazonaws.com/'' @ Repository (ECR (Config ecr)) @ '':'' @ ImageTag (ECR (Config ecr))]]"
  "fst (push run ecr) =
     [Println (ColorCyan @ ''Pushing container'' @ ColorReset),
      Exec [''docker'', ''push'',
        AccountID (ECR (Config ecr)) @ ''.dkr.ecr.'' @ Region (ECR (Config ecr)) @
          ''.amazonaws.com/'' @ Repository (ECR (Config ecr)) @ '':'' @ ImageTag (ECR (Config ecr))]]"
  by (simp_all add: authenticate_def build_def tag_def push_def Let_def split: option.split)

lemma validateConfig_exampleProfile: "validateConfig exampleProfile = None"
  by (simp add: validateConfig_def exampleProfile_def MatchString_accountID isDigit_def)

text \<open>
  C4. For every profile (validated or not) the tag step runs \<^verbatim>\<open>docker tag\<close> with the local
  reference \<^verbatim>\<open><image_name>:<image_tag>\<close> and the remote reference
  \<^verbatim>\<open><account_id>.dkr.ecr.<region>.amazonaws.com/<repository>:<image_tag>\<close>, built from the
  profile's fields and nothing else. For the scenario's profile, which passes validation, the
  two are \<^verbatim>\<open>myapp:latest\<close> and
  \<^verbatim>\<open>123456789012.dkr.ecr.us-east-1.amazonaws.com/myrepo:latest\<close>.
\<close>

theorem tag_references:
  "fst (tag run ecr) =
     [Println (ColorYellow @ ''Tagging container'' @ ColorReset),
      Exec [''docker'', ''tag'',
        ImageName (Docker (Config ecr)) @ '':'' @ ImageTag (ECR (Config ecr)),
        AccountID (ECR (Config ecr)) @ ''.dkr.ecr.'' @ Region (ECR (Config ecr)) @
          ''.amazonaws.com/'' @ Repository (ECR (Config ecr)) @ '':'' @ ImageTag (ECR (Config ecr))]] \<and>
   validateConfig exampleProfile = None \<and>
   execs (fst (tag run \<lparr>Config = exampleProfile\<rparr>)) =
     [[''docker'', ''tag'', ''myapp:latest'',
       ''123456789012.dkr.ecr.us-east-1.amazonaws.com/myrepo:latest'']]"
  by (simp add: tag_def Let_def exampleProfile_def validateConfig_def
      MatchString_accountID isDigit_def split: option.split)

theorem tag_references_witness:
  "execs (fst (tag allSucceed \<lparr>Config = prodProfile\<rparr>)) =
     [[''docker'', ''tag'', ''myapp:'', ''12345.dkr.ecr.eu-west-1.amazonaws.com/myrepo:'']]"
  using tag_references [of allSucceed "\<lparr>Config = prodProfile\<rparr>"]
  by (simp add: prodProfile_def)

text \<open>
  C5. For every profile (validated or not) the remote reference that the push step hands to
  \<^verbatim>\<open>docker push\<close> is the remote reference that the tag step hands to \<^verbatim>\<open>docker tag\<close>:
  the two steps compute it separately and arrive at the same string.
\<close>

theorem push_same_reference:
  "\<exists>localImage ecrImage.
     execs (fst (tag run ecr)) = [[''docker'', ''tag'', localImage, ecrImage]] \<and>
     execs (fst (push run ecr)) = [[''docker'', ''push'', ecrImage]]"
  by (simp add: tag_def push_def Let_def split: option.split)

theorem push_same_reference_witness:
  "execs (fst (tag allSucceed \<lparr>Config = exampleProfile\<rparr>)) =
     [[''docker'', ''tag'', ''myapp:latest'',
       ''123456789012.dkr.ecr.us-east-1.amazonaws.com/myrepo:latest'']] \<and>
   execs (fst (push allSucceed \<lparr>Config = exampleProfile\<rparr>)) =
     [[''docker'', ''push'', ''123456789012.dkr.ecr.us-east-1.amazonaws.com/myrepo:latest'']]"
  using push_same_reference [of allSucceed "\<lparr>Config = exampleProfile\<rparr>"]
  by (simp add: steps_trace exampleProfile_def)

text \<open>
  C9. For every profile (validated or not) the authenticate step builds the registry host
  \<^verbatim>\<open><account_id>.dkr.ecr.<region>.amazonaws.com\<close> and runs, through \<^verbatim>\<open>sh -c\<close>, the
  pipeline that asks for the login password of the configured region and pipes it into
  \<^verbatim>\<open>docker login\<close> against that host with the user name \<^verbatim>\<open>AWS\<close>.
\<close>

theorem authenticate_command:
  "fst (authenticate run ecr) =
     [Println (ColorCyan @ ''Authenticating Docker with ECR'' @ ColorReset),
      Exec [''sh'', ''-c'',
        ''aws ecr get-login-password --region '' @ Region (ECR (Config ecr)) @
        '' | docker login --username AWS --password-stdin '' @
        (AccountID (ECR (Config ecr)) @ ''.dkr.ecr.'' @ Region (ECR (Config ecr)) @ ''.amazonaws.com'')]]"
  by (simp add: authenticate_def Let_def split: option.split)

theorem authenticate_command_witness:
  "execs (fst (authenticate allSucceed \<lparr>Config = exampleProfile\<rparr>)) =
     [[''sh'', ''-c'',
       ''aws ecr get-login-password --region us-east-1 | docker login --username AWS --password-stdin 123456789012.dkr.ecr.us-east-1.amazonaws.com'']]"
  using authenticate_command [of allSucceed "\<lparr>Config = exampleProfile\<rparr>"]
  by (simp add: exampleProfile_def)

subsection \<open>Loading the configuration\<close>





lemma lowerByte_add:
  assumes "65 \<le> (of_char c :: nat)" and "(of_char c :: nat) \<le> 90"
  shows "(of_char (lowerByte c) :: nat) = of_char c + 32"
proof (cases c)
  case (Char b0 b1 b2 b3 b4 b5 b6 b7)
  with assms show ?thesis
    by (cases b0; cases b1; cases b2; cases b3; cases b4; cases b5; cases b6; cases b7)
       (simp_all add: lowerByte_def)
qed







lemma example_loads:
  "case loadConfig exampleFS ''deploy.yml'' of
     Inl err \<Rightarrow> False
   | Inr config \<Rightarrow>
       Profiles config ''dev'' = Some exampleProfile \<and>
       Profiles config ''prod'' = Some prodProfile \<and>
       Profiles config ''staging'' = None"
  by code_simp




subsection \<open>Runs of the program\<close>

text \<open>
  Whatever the outcome of the commands, the commands of a run are an initial part of the
  sequence authenticate, build, tag, push: the steps run in this order and a run never
  goes on after a step that was left out.
\<close>

lemma main_commands_in_order:
  assumes "loadConfig fs configPath = Inr config"
    and "Profiles config profile = Some p"
  shows "\<exists>n. execs (fst (main fs run configPath profile)) =
     take n (execs (fst (authenticate run \<lparr>Config = p\<rparr>)) @ execs (fst (build run \<lparr>Config = p\<rparr>)) @
             execs (fst (tag run \<lparr>Config = p\<rparr>)) @ execs (fst (push run \<lparr>Config = p\<rparr>)))"
proof (cases "validateConfig p")
  case (Some err)
  with assms have "execs (fst (main fs run configPath profile)) = []"
    by (simp add: main_def Let_def Printf_def)
  then show ?thesis by (intro exI [of _ 0]) simp
next
  case None
  obtain t1 e1 t2 e2 t3 e3 t4 e4 where s:
    "authenticate run \<lparr>Config = p\<rparr> = (t1, e1)" "build run \<lparr>Config = p\<rparr> = (t2, e2)"
    "tag run \<lparr>Config = p\<rparr> = (t3, e3)" "push run \<lparr>Config = p\<rparr> = (t4, e4)"
    by (metis prod.collapse)
  have l: "length (execs t1) = 1" "length (execs t2) = 1" "length (execs t3) = 1" "length (execs t4) = 1"
    using s steps_trace [of run "\<lparr>Config = p\<rparr>"] by (auto simp del: ECR.simps)
  show ?thesis
  proof (cases e1)
    case (Some err)
    with assms None s l show ?thesis
      by (intro exI [of _ 1]) (simp add: main_def Let_def Printf_def)
  next
    case a: None
    show ?thesis
    proof (cases e2)
      case (Some err)
      with assms None s l a show ?thesis
        by (intro exI [of _ 2]) (simp add: main_def Let_def Printf_def)
    next
      case b: None
      show ?thesis
      proof (cases e3)
        case (Some err)
        with assms None s l a b show ?thesis
          by (intro exI [of _ 3]) (simp add: main_def Let_def Printf_def)
      next
        case c: None
        with assms \<open>validateConfig p = None\<close> s l a b show ?thesis
          by (intro exI [of _ 4]) (cases e4; simp add: main_def Let_def Printf_def)
      qed
    qed
  qed
qed

text \<open>
  C6. In every run in which the configuration loads and the profile is found and valid, the
  program runs the four steps in the order authenticate, build, tag, push and stops at the
  first step that fails. If authenticate fails, the only command run is the login pipeline;
  if build is the first to fail, the commands are the login pipeline and \<^verbatim>\<open>docker build\<close>;
  if tag is the first to fail, they are the login pipeline, \<^verbatim>\<open>docker build\<close> and
  \<^verbatim>\<open>docker tag\<close>, and no \<^verbatim>\<open>docker push\<close> is run; if push fails or nothing fails, all
  four commands are run in order. The exit status is 1 when a step fails, with the failure
  of that step as the last thing printed, and 0 when none fails.
\<close>

theorem main_steps_in_order:
  assumes "loadConfig fs configPath = Inr config"
    and "Profiles config profile = Some p"
    and "validateConfig p = None"
  shows
    "(let ecr = \<lparr>Config = p\<rparr>;
          r = main fs run configPath profile;
          cmds =
          [[''sh'', ''-c'',
              ''aws ecr get-login-password --region '' @ Region (ECR p) @
              '' | docker login --username AWS --password-stdin '' @
              (AccountID (ECR p) @ ''.dkr.ecr.'' @ Region (ECR p) @ ''.amazonaws.com'')],
             [''docker'', ''build'', ''-t'', ImageName (Docker p), ''.''],
             [''docker'', ''tag'', ImageName (Docker p) @ '':'' @ ImageTag (ECR p),
              AccountID (ECR p) @ ''.dkr.ecr.'' @ Region (ECR p) @ ''.amazonaws.com/'' @
                Repository (ECR p) @ '':'' @ ImageTag (ECR p)],
             [''docker'', ''push'',
              AccountID (ECR p) @ ''.dkr.ecr.'' @ Region (ECR p) @ ''.amazonaws.com/'' @
                Repository (ECR p) @ '':'' @ ImageTag (ECR p)]]
      in
      (\<forall>err. snd (authenticate run ecr) = Some err \<longrightarrow>
         snd r = 1 \<and> execs (fst r) = take 1 cmds \<and>
         last (fst r) = Println (ColorRed @ ''Authentication failed: '' @ Error err @ ColorReset)) \<and>
      (\<forall>err. snd (authenticate run ecr) = None \<and> snd (build run ecr) = Some err \<longrightarrow>
         snd r = 1 \<and> execs (fst r) = take 2 cmds \<and>
         last (fst r) = Println (ColorRed @ ''Build failed: '' @ Error err @ ColorReset)) \<and>
      (\<forall>err. snd (authenticate run ecr) = None \<and> snd (build run ecr) = None \<and>
             snd (tag run ecr) = Some err \<longrightarrow>
         snd r = 1 \<and> execs (fst r) = take 3 cmds \<and>
         (\<forall>cmd \<in> set (execs (fst r)). take 2 cmd \<noteq> [''docker'', ''push'']) \<and>
         last (fst r) = Println (ColorRed @ ''Tag failed: '' @ Error err @ ColorReset)) \<and>
      (\<forall>err. snd (authenticate run ecr) = None \<and> snd (build run ecr) = None \<and>
             snd (tag run ecr) = None \<and> snd (push run ecr) = Some err \<longrightarrow>
         snd r = 1 \<and> execs (fst r) = cmds \<and>
         last (fst r) = Println (ColorRed @ ''Push failed: '' @ Error err @ ColorReset)) \<and>
      (snd (authenticate run ecr) = None \<and> snd (build run ecr) = None \<and>
       snd (tag run ecr) = None \<and> snd (push run ecr) = None \<longrightarrow>
         snd r = 0 \<and> execs (fst r) = cmds \<and>
         last (fst r) = Println (ColorGreen @ ''Container built and pushed to ECR'' @ ColorReset)))"
proof -
  obtain t1 e1 t2 e2 t3 e3 t4 e4 where s:
    "authenticate run \<lparr>Config = p\<rparr> = (t1, e1)" "build run \<lparr>Config = p\<rparr> = (t2, e2)"
    "tag run \<lparr>Config = p\<rparr> = (t3, e3)" "push run \<lparr>Config = p\<rparr> = (t4, e4)"
    by (metis prod.collapse)
  have t: "t1 = fst (authenticate run \<lparr>Config = p\<rparr>)" "t2 = fst (build run \<lparr>Config = p\<rparr>)"
    "t3 = fst (tag run \<lparr>Config = p\<rparr>)" "t4 = fst (push run \<lparr>Config = p\<rparr>)"
    using s by simp_all
  have m: "main fs run configPath profile =
     (let t0 = [Printf (ColorYellow @ ''Loaded Configuration for profile '%s': %+v'' @ ColorReset @ [CHR 0x0A])
                  [profile, fmtProfileConfig p]]
      in case e1 of
        Some err \<Rightarrow>
          (t0 @ t1 @ [Println (ColorRed @ ''Authentication failed: '' @ Error err @ ColorReset)], 1)
      | None \<Rightarrow>
     (case e2 of
        Some err \<Rightarrow>
          (t0 @ t1 @ t2 @ [Println (ColorRed @ ''Build failed: '' @ Error err @ ColorReset)], 1)
      | None \<Rightarrow>
     (case e3 of
        Some err \<Rightarrow>
          (t0 @ t1 @ t2 @ t3 @ [Println (ColorRed @ ''Tag failed: '' @ Error err @ ColorReset)], 1)
      | None \<Rightarrow>
     (case e4 of
        Some err \<Rightarrow>
          (t0 @ t1 @ t2 @ t3 @ t4 @ [Println (ColorRed @ ''Push failed: '' @ Error err @ ColorReset)], 1)
      | None \<Rightarrow>
          (t0 @ t1 @ t2 @ t3 @ t4 @
             [Println (ColorGreen @ ''Container built and pushed to ECR'' @ ColorReset)], 0)))))"
    using assms s
    by (cases e1; simp add: main_def Let_def; cases e2; simp; cases e3; simp; cases e4; simp)
  show ?thesis
    unfolding m Let_def s snd_conv
    unfolding t steps_trace
    by (cases e1; simp add: Printf_def; cases e2; simp; cases e3; simp; cases e4; simp)
qed

theorem main_steps_in_order_witness:
  "(\<exists>config. loadConfig exampleFS ''deploy.yml'' = Inr config \<and>
      Profiles config ''dev'' = Some exampleProfile) \<and>
   validateConfig exampleProfile = None \<and>
   snd (authenticate (failsOn [''sh'', ''-c'']) \<lparr>Config = exampleProfile\<rparr>) =
     Some (New (''error durante la autenticaci'' @ [CHR 0xC3, CHR 0xB3] @ ''n con ECR: exit status 1'')) \<and>
   snd (main exampleFS (failsOn [''sh'', ''-c'']) ''deploy.yml'' ''dev'') = 1 \<and>
   execs (fst (main exampleFS (failsOn [''sh'', ''-c'']) ''deploy.yml'' ''dev'')) =
     [[''sh'', ''-c'',
       ''aws ecr get-login-password --region us-east-1 | docker login --username AWS --password-stdin 123456789012.dkr.ecr.us-east-1.amazonaws.com'']] \<and>
   snd (authenticate (failsOn [''docker'', ''build'']) \<lparr>Config = exampleProfile\<rparr>) = None \<and>
   snd (build (failsOn [''docker'', ''build'']) \<lparr>Config = exampleProfile\<rparr>) =
     Some (New (''error al construir la imagen Docker: exit status 1'')) \<and>
   snd (main exampleFS (failsOn [''docker'', ''build'']) ''deploy.yml'' ''dev'') = 1 \<and>
   execs (fst (main exampleFS (failsOn [''docker'', ''build'']) ''deploy.yml'' ''dev'')) =
     [[''sh'', ''-c'',
       ''aws ecr get-login-password --region us-east-1 | docker login --username AWS --password-stdin 123456789012.dkr.ecr.us-east-1.amazonaws.com''],
      [''docker'', ''build'', ''-t'', ''myapp'', ''.'']] \<and>
   snd (authenticate (failsOn [''docker'', ''tag'']) \<lparr>Config = exampleProfile\<rparr>) = None \<and>
   snd (build (failsOn [''docker'', ''tag'']) \<lparr>Config = exampleProfile\<rparr>) = None \<and>
   snd (tag (failsOn [''docker'', ''tag'']) \<lparr>Config = exampleProfile\<rparr>) =
     Some (New (''error al etiquetar la imagen Docker: exit status 1'')) \<and>
   snd (main exampleFS (failsOn [''docker'', ''tag'']) ''deploy.yml'' ''dev'') = 1 \<and>
   execs (fst (main exampleFS (failsOn [''docker'', ''tag'']) ''deploy.yml'' ''dev'')) =
     [[''sh'', ''-c'',
       ''aws ecr get-login-password --region us-east-1 | docker login --username AWS --password-stdin 123456789012.dkr.ecr.us-east-1.amazonaws.com''],
      [''docker'', ''build'', ''-t'', ''myapp'', ''.''],
      [''docker'', ''tag'', ''myapp:latest'',
       ''123456789012.dkr.ecr.us-east-1.amazonaws.com/myrepo:latest'']] \<and>
   snd (authenticate (failsOn [''docker'', ''push'']) \<lparr>Config = exampleProfile\<rparr>) = None \<and>
   snd (build (failsOn [''docker'', ''push'']) \<lparr>Config = exampleProfile\<rparr>) = None \<and>
   snd (tag (failsOn [''docker'', ''push'']) \<lparr>Config = exampleProfile\<rparr>) = None \<and>
   snd (push (failsOn [''docker'', ''push'']) \<lparr>Config = exampleProfile\<rparr>) =
     Some (New (''error al empujar la imagen Docker: exit status 1'')) \<and>
   snd (main exampleFS (failsOn [''docker'', ''push'']) ''deploy.yml'' ''dev'') = 1 \<and>
   execs (fst (main exampleFS (failsOn [''docker'', ''push'']) ''deploy.yml'' ''dev'')) =
     [[''sh'', ''-c'',
       ''aws ecr get-login-password --region us-east-1 | docker login --username AWS --password-stdin 123456789012.dkr.ecr.us-east-1.amazonaws.com''],
      [''docker'', ''build'', ''-t'', ''myapp'', ''.''],
      [''docker'', ''tag'', ''myapp:latest'',
       ''123456789012.dkr.ecr.us-east-1.amazonaws.com/myrepo:latest''],
      [''docker'', ''push'', ''123456789012.dkr.ecr.us-east-1.amazonaws.com/myrepo:latest'']] \<and>
   snd (authenticate allSucceed \<lparr>Config = exampleProfile\<rparr>) = None \<and>
   snd (build allSucceed \<lparr>Config = exampleProfile\<rparr>) = None \<and>
   snd (tag allSucceed \<lparr>Config = exampleProfile\<rparr>) = None \<and>
   snd (push allSucceed \<lparr>Config = exampleProfile\<rparr>) = None \<and>
   snd (main exampleFS allSucceed ''deploy.yml'' ''dev'') = 0 \<and>
   execs (fst (main exampleFS allSucceed ''deploy.yml'' ''dev'')) =
     [[''sh'', ''-c'',
       ''aws ecr get-login-password --region us-east-1 | docker login --username AWS --password-stdin 123456789012.dkr.ecr.us-east-1.amazonaws.com''],
      [''docker'', ''build'', ''-t'', ''myapp'', ''.''],
      [''docker'', ''tag'', ''myapp:latest'',
       ''123456789012.dkr.ecr.us-east-1.amazonaws.com/myrepo:latest''],
      [''docker'', ''push'', ''123456789012.dkr.ecr.us-east-1.amazonaws.com/myrepo:latest'']]"
proof -
  obtain config where c: "loadConfig exampleFS ''deploy.yml'' = Inr config"
    and dev: "Profiles config ''dev'' = Some exampleProfile"
    using example_loads by (auto split: sum.splits)
  have h0:
    "snd (authenticate (failsOn [''sh'', ''-c'']) \<lparr>Config = exampleProfile\<rparr>) =
     Some (New (''error durante la autenticaci'' @ [CHR 0xC3, CHR 0xB3] @ ''n con ECR: exit status 1''))"
    by (simp_all add: authenticate_def build_def tag_def push_def failsOn_def allSucceed_def
        Let_def Errorf_def exampleProfile_def)
  from main_steps_in_order [OF c dev validateConfig_exampleProfile, of "failsOn [''sh'', ''-c'']"] h0
  have r0:
    "snd (main exampleFS (failsOn [''sh'', ''-c'']) ''deploy.yml'' ''dev'') = 1"
    "execs (fst (main exampleFS (failsOn [''sh'', ''-c'']) ''deploy.yml'' ''dev'')) =
     [[''sh'', ''-c'',
       ''aws ecr get-login-password --region us-east-1 | docker login --username AWS --password-stdin 123456789012.dkr.ecr.us-east-1.amazonaws.com'']]"
    by (simp_all add: Let_def exampleProfile_def)
  have h1:
    "snd (authenticate (failsOn [''docker'', ''build'']) \<lparr>Config = exampleProfile\<rparr>) = None"
    "snd (build (failsOn [''docker'', ''build'']) \<lparr>Config = exampleProfile\<rparr>) =
     Some (New (''error al construir la imagen Docker: exit status 1''))"
    by (simp_all add: authenticate_def build_def tag_def push_def failsOn_def allSucceed_def
        Let_def Errorf_def exampleProfile_def)
  from main_steps_in_order [OF c dev validateConfig_exampleProfile, of "failsOn [''docker'', ''build'']"] h1
  have r1:
    "snd (main exampleFS (failsOn [''docker'', ''build'']) ''deploy.yml'' ''dev'') = 1"
    "execs (fst (main exampleFS (failsOn [''docker'', ''build'']) ''deploy.yml'' ''dev'')) =
     [[''sh'', ''-c'',
       ''aws ecr get-login-password --region us-east-1 | docker login --username AWS --password-stdin 123456789012.dkr.ecr.us-east-1.amazonaws.com''],
      [''docker'', ''build'', ''-t'', ''myapp'', ''.'']]"
    by (simp_all add: Let_def exampleProfile_def)
  have h2:
    "snd (authenticate (failsOn [''docker'', ''tag'']) \<lparr>Config = exampleProfile\<rparr>) = None"
    "snd (build (failsOn [''docker'', ''tag'']) \<lparr>Config = exampleProfile\<rparr>) = None"
    "snd (tag (failsOn [''docker'', ''tag'']) \<lparr>Config = exampleProfile\<rparr>) =
     Some (New (''error al etiquetar la imagen Docker: exit status 1''))"
    by (simp_all add: authenticate_def build_def tag_def push_def failsOn_def allSucceed_def
        Let_def Errorf_def exampleProfile_def)
  from main_steps_in_order [OF c dev validateConfig_exampleProfile, of "failsOn [''docker'', ''tag'']"] h2
  have r2:
    "snd (main exampleFS (failsOn [''docker'', ''tag'']) ''deploy.yml'' ''dev'') = 1"
    "execs (fst (main exampleFS (failsOn [''docker'', ''tag'']) ''deploy.yml'' ''dev'')) =
     [[''sh'', ''-c'',
       ''aws ecr get-login-password --region us-east-1 | docker login --username AWS --password-stdin 123456789012.dkr.ecr.us-east-1.amazonaws.com''],
      [''docker'', ''build'', ''-t'', ''myapp'', ''.''],
      [''docker'', ''tag'', ''myapp:latest'',
       ''123456789012.dkr.ecr.us-east-1.amazonaws.com/myrepo:latest'']]"
    by (simp_all add: Let_def exampleProfile_def)
  have h3:
    "snd (authenticate (failsOn [''docker'', ''push'']) \<lparr>Config = exampleProfile\<rparr>) = None"
    "snd (build (failsOn [''docker'', ''push'']) \<lparr>Config = exampleProfile\<rparr>) = None"
    "snd (tag (failsOn [''docker'', ''push'']) \<lparr>Config = exampleProfile\<rparr>) = None"
    "snd (push (failsOn [''docker'', ''push'']) \<lparr>Config = exampleProfile\<rparr>) =
     Some (New (''error al empujar la imagen Docker: exit status 1''))"
    by (simp_all add: authenticate_def build_def tag_def push_def failsOn_def allSucceed_def
        Let_def Errorf_def exampleProfile_def)
  from main_steps_in_order [OF c dev validateConfig_exampleProfile, of "failsOn [''docker'', ''push'']"] h3
  have r3:
    "snd (main exampleFS (failsOn [''docker'', ''push'']) ''deploy.yml'' ''dev'') = 1"
    "execs (fst (main exampleFS (failsOn [''docker'', ''push'']) ''deploy.yml'' ''dev'')) =
     [[''sh'', ''-c'',
       ''aws ecr get-login-password --region us-east-1 | docker login --username AWS --password-stdin 123456789012.dkr.ecr.us-east-1.amazonaws.com''],
      [''docker'', ''build'', ''-t'', ''myapp'', ''.''],
      [''docker'', ''tag'', ''myapp:latest'',
       ''123456789012.dkr.ecr.us-east-1.amazonaws.com/myrepo:latest''],
      [''docker'', ''push'', ''123456789012.dkr.ecr.us-east-1.amazonaws.com/myrepo:latest'']]"
    by (simp_all add: Let_def exampleProfile_def)
  have h4:
    "snd (authenticate allSucceed \<lparr>Config = exampleProfile\<rparr>) = None"
    "snd (build allSucceed \<lparr>Config = exampleProfile\<rparr>) = None"
    "snd (tag allSucceed \<lparr>Config = exampleProfile\<rparr>) = None"
    "snd (push allSucceed \<lparr>Config = exampleProfile\<rparr>) = None"
    by (simp_all add: authenticate_def build_def tag_def push_def failsOn_def allSucceed_def
        Let_def Errorf_def exampleProfile_def)
  from main_steps_in_order [OF c dev validateConfig_exampleProfile, of "allSucceed"] h4
  have r4:
    "snd (main exampleFS allSucceed ''deploy.yml'' ''dev'') = 0"
    "execs (fst (main exampleFS allSucceed ''deploy.yml'' ''dev'')) =
     [[''sh'', ''-c'',
       ''aws ecr get-login-password --region us-east-1 | docker login --username AWS --password-stdin 123456789012.dkr.ecr.us-east-1.amazonaws.com''],
      [''docker'', ''build'', ''-t'', ''myapp'', ''.''],
      [''docker'', ''tag'', ''myapp:latest'',
       ''123456789012.dkr.ecr.us-east-1.amazonaws.com/myrepo:latest''],
      [''docker'', ''push'', ''123456789012.dkr.ecr.us-east-1.amazonaws.com/myrepo:latest'']]"
    by (simp_all add: Let_def exampleProfile_def)
  from c dev have l: "\<exists>config. loadConfig exampleFS ''deploy.yml'' = Inr config \<and>
      Profiles config ''dev'' = Some exampleProfile"
    by (intro exI [of _ config] conjI)
  from l validateConfig_exampleProfile h0 r0 h1 r1 h2 r2 h3 r3 h4 r4 show ?thesis
    by (intro conjI)
qed

text \<open>
  C7. In every run in which the configuration loads and the selected profile has an account
  identifier that does not match \<^verbatim>\<open>^\d{12}$\<close> (it is empty, of another length, or holds a
  byte that is not a digit), \<open>validateConfig\<close> returns an error whose message names the
  field it rejects (the account identifier, unless the region is empty, which is checked
  first); the program prints that message, runs no command and exits with status 1.
\<close>

theorem main_invalid_account_id:
  assumes "loadConfig fs configPath = Inr config"
    and "Profiles config profile = Some p"
    and "\<not> MatchString accountIDPattern (AccountID (ECR p))"
  shows "\<exists>err. validateConfig p = Some err \<and>
     (Region (ECR p) = [] \<longrightarrow> Error err = ''ecr.region is required'') \<and>
     (Region (ECR p) \<noteq> [] \<and> AccountID (ECR p) = [] \<longrightarrow> Error err = ''ecr.account_id is required'') \<and>
     (Region (ECR p) \<noteq> [] \<and> AccountID (ECR p) \<noteq> [] \<longrightarrow>
        Error err = ''ecr.account_id debe ser una cadena de 12 d'' @ [CHR 0xC3, CHR 0xAD] @ ''gitos'') \<and>
     main fs run configPath profile =
       ([Printf (ColorYellow @ ''Loaded Configuration for profile '%s': %+v'' @ ColorReset @ [CHR 0x0A])
           [profile, fmtProfileConfig p],
         Println (ColorRed @ ''Invalid configuration: '' @ Error err @ ColorReset)], 1) \<and>
     execs (fst (main fs run configPath profile)) = []"
proof -
  from assms(3) have "validateConfig p \<noteq> None"
    by (simp add: validateConfig_def)
  then obtain err where v: "validateConfig p = Some err"
    by blast
  have m: "main fs run configPath profile =
       ([Printf (ColorYellow @ ''Loaded Configuration for profile '%s': %+v'' @ ColorReset @ [CHR 0x0A])
           [profile, fmtProfileConfig p],
         Println (ColorRed @ ''Invalid configuration: '' @ Error err @ ColorReset)], 1)"
    using assms(1,2) v by (simp add: main_def Let_def)
  have e: "execs (fst (main fs run configPath profile)) = []"
    unfolding m by (simp add: Printf_def)
  from v assms(3) have
    "Region (ECR p) = [] \<longrightarrow> Error err = ''ecr.region is required''"
    "Region (ECR p) \<noteq> [] \<and> AccountID (ECR p) = [] \<longrightarrow> Error err = ''ecr.account_id is required''"
    "Region (ECR p) \<noteq> [] \<and> AccountID (ECR p) \<noteq> [] \<longrightarrow>
        Error err = ''ecr.account_id debe ser una cadena de 12 d'' @ [CHR 0xC3, CHR 0xAD] @ ''gitos''"
    by (auto simp: validateConfig_def Errorf_def split: if_splits)
  with v m e show ?thesis by blast
qed

theorem main_invalid_account_id_witness:
  "(\<exists>config. loadConfig exampleFS ''deploy.yml'' = Inr config \<and>
      Profiles config ''prod'' = Some prodProfile) \<and>
   \<not> MatchString accountIDPattern (AccountID (ECR prodProfile)) \<and>
   validateConfig prodProfile =
     Some (New (''ecr.account_id debe ser una cadena de 12 d'' @ [CHR 0xC3, CHR 0xAD] @ ''gitos'')) \<and>
   snd (main exampleFS allSucceed ''deploy.yml'' ''prod'') = 1 \<and>
   execs (fst (main exampleFS allSucceed ''deploy.yml'' ''prod'')) = []"
proof -
  obtain config where c: "loadConfig exampleFS ''deploy.yml'' = Inr config"
    and prod: "Profiles config ''prod'' = Some prodProfile"
    using example_loads by (auto split: sum.splits)
  have n: "\<not> MatchString accountIDPattern (AccountID (ECR prodProfile))"
    by (simp add: MatchString_accountID prodProfile_def)
  from main_invalid_account_id [OF c prod n, of allSucceed]
  obtain err where "validateConfig prodProfile = Some err"
    and "Region (ECR prodProfile) \<noteq> [] \<and> AccountID (ECR prodProfile) \<noteq> [] \<longrightarrow>
        Error err = ''ecr.account_id debe ser una cadena de 12 d'' @ [CHR 0xC3, CHR 0xAD] @ ''gitos''"
    and "snd (main exampleFS allSucceed ''deploy.yml'' ''prod'') = 1"
    and "execs (fst (main exampleFS allSucceed ''deploy.yml'' ''prod'')) = []"
    by auto
  moreover have "Region (ECR prodProfile) \<noteq> [] \<and> AccountID (ECR prodProfile) \<noteq> []"
    by (simp add: prodProfile_def)
  ultimately have "validateConfig prodProfile =
     Some (New (''ecr.account_id debe ser una cadena de 12 d'' @ [CHR 0xC3, CHR 0xAD] @ ''gitos''))"
    and "snd (main exampleFS allSucceed ''deploy.yml'' ''prod'') = 1"
    and "execs (fst (main exampleFS allSucceed ''deploy.yml'' ''prod'')) = []"
    by (cases err; simp)+
  with c prod n show ?thesis by blast
qed

text \<open>
  C8. In every run in which the configuration loads and the profile name is not a key of
  its profile mapping, the program prints the profile-not-found message and exits with
  status 1. Nothing else happens in the run: no validation message is printed and no
  command is run.
\<close>

theorem main_profile_not_found:
  assumes "loadConfig fs configPath = Inr config"
    and "Profiles config profile = None"
  shows "main fs run configPath profile =
     ([Print (ColorRed @ ''Profile '' @ [CHR 0x27] @ profile @ [CHR 0x27] @
          '' not found in configuration'' @ ColorReset @ [CHR 0x0A])], 1) \<and>
     execs (fst (main fs run configPath profile)) = []"
  using assms
  by (simp add: main_def Printf_def ColorRed_def ColorReset_def)

theorem main_profile_not_found_witness:
  "(\<exists>config. loadConfig exampleFS ''deploy.yml'' = Inr config \<and>
      Profiles config ''staging'' = None) \<and>
   main exampleFS allSucceed ''deploy.yml'' ''staging'' =
     ([Print (ColorRed @ ''Profile 'staging' not found in configuration'' @ ColorReset @ [CHR 0x0A])], 1)"
proof -
  obtain config where c: "loadConfig exampleFS ''deploy.yml'' = Inr config"
    and absent: "Profiles config ''staging'' = None"
    using example_loads by (auto split: sum.splits)
  from main_profile_not_found [OF c absent, of allSucceed]
  have "main exampleFS allSucceed ''deploy.yml'' ''staging'' =
     ([Print (ColorRed @ ''Profile 'staging' not found in configuration'' @ ColorReset @ [CHR 0x0A])], 1)"
    by simp
  with c absent show ?thesis by blast
qed

end
